theory Spec2Isabelle
  imports
    Complex_Main
    "HOL-Library.Multiset"
    "HOL-Library.Sublist"
    "HOL-Library.Char_ord"
    "HOL-Library.List_Lexorder"
    "HOL-Library.Product_Lexorder"
begin

section \<open>Data model\<close>

text \<open>
  The two scripts \<^verbatim>\<open>3.py\<close> and \<^verbatim>\<open>31.py\<close> read \<^verbatim>\<open>sales_data.csv\<close> into a pandas
  data frame and compute everything with data-frame primitives. A data frame is modelled
  as the list of its rows, in index order.

  A value of the \<^verbatim>\<open>Date\<close> column is a calendar date (year, month, day): the timestamp of
  that day's midnight. Dates are compared lexicographically, which is chronological order.
  Strings are compared as Python compares them, character code by character code.
  The decimal columns are modelled by exact real numbers, the integer column by unbounded
  integers; a missing number (pandas' \<^verbatim>\<open>NaN\<close>) is \<open>None\<close>.
\<close>

type_synonym date = "int \<times> nat \<times> nat"

record sale =
  Date :: date
  Region :: string
  Country :: string
  ProductCategory :: string
  Product :: string
  UnitsSold :: int
  UnitPrice :: real
  TotalSales :: real

type_synonym dataframe = "sale list"

text \<open>The names bound by the sidebar section of either script, once the two ends of the
  date range have been read.\<close>

record filter_spec =
  regions :: "string list"
  countries :: "string list"
  categories :: "string list"
  start_date :: date
  end_date :: date

text \<open>The choices of the radio button and of the two select boxes for a grouping column.\<close>

datatype dimension = ByRegion | ByCountry | ByProductCategory | ByProduct

text \<open>The choices of the select box \<^verbatim>\<open>"Aggregate By"\<close>.\<close>

datatype time_agg = Day | Month

datatype error = IndexError


section \<open>The pandas and Python primitives the scripts call\<close>

text \<open>\<^verbatim>\<open>xs[i]\<close> on a Python sequence, for a non-negative index.\<close>

definition py_index :: "'a list \<Rightarrow> nat \<Rightarrow> error + 'a" where
  "py_index xs i = (if i < length xs then Inr (xs ! i) else Inl IndexError)"

text \<open>\<^verbatim>\<open>pd.to_datetime\<close> of a calendar date: the timestamp of its midnight.\<close>

definition to_datetime :: "date \<Rightarrow> date" where
  "to_datetime d = d"

text \<open>\<^verbatim>\<open>Series.isin(values)\<close>: a boolean column, one entry per row.\<close>

definition isin :: "'a list \<Rightarrow> 'a list \<Rightarrow> bool list" where
  "isin col vals = map (\<lambda>v. v \<in> set vals) col"

text \<open>\<^verbatim>\<open>Series.between(left, right)\<close>, with the default \<^verbatim>\<open>inclusive="both"\<close>.\<close>

definition between :: "'a::linorder list \<Rightarrow> 'a \<Rightarrow> 'a \<Rightarrow> bool list" where
  "between col left right = map (\<lambda>v. left \<le> v \<and> v \<le> right) col"

text \<open>The operator \<^verbatim>\<open>&\<close> on two boolean columns of one data frame.\<close>

definition mask_and :: "bool list \<Rightarrow> bool list \<Rightarrow> bool list" where
  "mask_and a b = map2 (\<and>) a b"

text \<open>\<^verbatim>\<open>df[mask]\<close>: the rows whose mask entry is true, in index order.\<close>

definition bool_index :: "'r list \<Rightarrow> bool list \<Rightarrow> 'r list" where
  "bool_index df msk = map fst (filter snd (zip df msk))"

text \<open>\<^verbatim>\<open>Series.sum()\<close>; the sum of an empty column is zero.\<close>

definition series_sum :: "'a::monoid_add list \<Rightarrow> 'a" where
  "series_sum col = foldl (+) 0 col"

text \<open>\<^verbatim>\<open>Series.mean()\<close>; the mean of an empty column is \<^verbatim>\<open>NaN\<close>, and nothing is raised.\<close>

definition series_mean :: "real list \<Rightarrow> real option" where
  "series_mean col =
     (if col = [] then None else Some (series_sum col / real (length col)))"

text \<open>
  \<^verbatim>\<open>df.groupby(key)[val].sum()\<close> with the default \<^verbatim>\<open>sort=True\<close>: the rows are taken in
  index order, each one adds its value to the running sum of its group, and the groups are
  kept in ascending order of their key. \<open>group_add\<close> is the step for one row.
\<close>

fun group_add :: "'k::linorder \<Rightarrow> real \<Rightarrow> ('k \<times> real) list \<Rightarrow> ('k \<times> real) list" where
  "group_add k v [] = [(k, v)]"
| "group_add k v ((k', s) # gs) =
     (if k = k' then (k', s + v) # gs
      else if k < k' then (k, v) # (k', s) # gs
      else (k', s) # group_add k v gs)"

definition groupby_sum :: "('r \<Rightarrow> 'k::linorder) \<Rightarrow> ('r \<Rightarrow> real) \<Rightarrow> 'r list \<Rightarrow> ('k \<times> real) list" where
  "groupby_sum key val df = foldl (\<lambda>gs r. group_add (key r) (val r) gs) [] df"

text \<open>\<^verbatim>\<open>Series.dt.to_period("M").dt.to_timestamp()\<close>: the first day of the date's month.\<close>

definition to_period_M_to_timestamp :: "date \<Rightarrow> date" where
  "to_period_M_to_timestamp d = (case d of (y, m, _) \<Rightarrow> (y, m, 1))"

text \<open>\<^verbatim>\<open>Series.head(n)\<close> for a non-negative \<open>n\<close>.\<close>

definition head :: "nat \<Rightarrow> 'a list \<Rightarrow> 'a list" where
  "head n xs = take n xs"



text \<open>Two routines that qualify: a stable sort, as \<^verbatim>\<open>kind="stable"\<close> gives (rows of equal
  value stay in index order), and one that puts rows of equal value in reverse index order.\<close>

definition stable_sort_values :: "('k \<times> real) list \<Rightarrow> ('k \<times> real) list" where
  "stable_sort_values xs = rev (sort_key snd (rev xs))"


text \<open>
  One entry of \<^verbatim>\<open>DataFrame.corr()\<close> (Pearson, \<^verbatim>\<open>min_periods=1\<close>) for two columns without
  missing values: \<^verbatim>\<open>NaN\<close> when there are fewer rows than \<^verbatim>\<open>min_periods\<close> or when the
  divisor is zero, the covariance over the divisor otherwise.
\<close>

definition pearson :: "real list \<Rightarrow> real list \<Rightarrow> real option" where
  "pearson xs ys =
     (let nobs = length xs in
      if nobs < 1 then None
      else
        let meanx = sum_list xs / real nobs;
            meany = sum_list ys / real nobs;
            ssqdm_x = (\<Sum>x\<leftarrow>xs. (x - meanx) * (x - meanx));
            ssqdm_y = (\<Sum>y\<leftarrow>ys. (y - meany) * (y - meany));
            covxy = (\<Sum>(x, y)\<leftarrow>zip xs ys. (x - meanx) * (y - meany));
            divisor = sqrt (ssqdm_x * ssqdm_y)
        in if divisor \<noteq> 0 then Some (covxy / divisor) else None)"

definition corr_columns :: "real list list \<Rightarrow> real option list list" where
  "corr_columns cols = map (\<lambda>a. map (\<lambda>b. pearson a b) cols) cols"

text \<open>
  The format specification \<^verbatim>\<open>,.2f\<close> of an f-string, on exact values: two digits after
  the point, rounded to nearest with ties to even, the integer part in groups of three
  separated by commas; a \<^verbatim>\<open>NaN\<close> is written \<^verbatim>\<open>nan\<close>.
\<close>

fun decimal_digits :: "nat \<Rightarrow> string" where
  "decimal_digits n =
     (if n < 10 then [''0123456789'' ! n]
      else decimal_digits (n div 10) @ [''0123456789'' ! (n mod 10)])"

fun group_thousands_rev :: "string \<Rightarrow> string" where
  "group_thousands_rev (a # b # c # d # ds) = a # b # c # CHR '','' # group_thousands_rev (d # ds)"
| "group_thousands_rev ds = ds"

definition group_thousands :: "string \<Rightarrow> string" where
  "group_thousands ds = rev (group_thousands_rev (rev ds))"

definition round_half_even :: "real \<Rightarrow> int" where
  "round_half_even x =
     (let f = \<lfloor>x\<rfloor>; d = x - of_int f in
      if d < 1 / 2 then f else if 1 / 2 < d then f + 1
      else if even f then f else f + 1)"

definition format_comma_2f :: "real option \<Rightarrow> string" where
  "format_comma_2f v =
     (case v of
        None \<Rightarrow> ''nan''
      | Some x \<Rightarrow>
          (let c = nat (round_half_even (\<bar>x\<bar> * 100)) in
           (if x < 0 then ''-'' else '''')
           @ group_thousands (decimal_digits (c div 100))
           @ ''.'' @ [''0123456789'' ! (c mod 100 div 10), ''0123456789'' ! (c mod 10)]))"


section \<open>The scripts\<close>

subsection \<open>Reading the date range (3.py 23--24, 31.py 25--26)\<close>

text \<open>
  \<^verbatim>\<open>date_range\<close> is what the date input returns, a sequence of dates; both scripts read
  its entries 0 and 1. The selections of the three multi-select boxes are passed on as
  they are.
\<close>

definition read_filters ::
  "string list \<Rightarrow> string list \<Rightarrow> string list \<Rightarrow> date list \<Rightarrow> error + filter_spec" where
  "read_filters rs cs ks date_range =
     (case py_index date_range 0 of
        Inl e \<Rightarrow> Inl e
      | Inr d0 \<Rightarrow>
          (case py_index date_range 1 of
             Inl e \<Rightarrow> Inl e
           | Inr d1 \<Rightarrow>
               Inr \<lparr>regions = rs, countries = cs, categories = ks,
                    start_date = to_datetime d0, end_date = to_datetime d1\<rparr>))"

subsection \<open>Filtering and KPIs of 3.py (lines 26--37)\<close>

definition df_filtered_3 :: "filter_spec \<Rightarrow> dataframe \<Rightarrow> dataframe" where
  "df_filtered_3 s df =
     bool_index df
       (mask_and
         (mask_and
           (mask_and (isin (map Region df) (regions s))
                     (isin (map Country df) (countries s)))
           (isin (map ProductCategory df) (categories s)))
         (between (map Date df) (start_date s) (end_date s)))"

definition total_sales_3 :: "dataframe \<Rightarrow> real" where
  "total_sales_3 df_filtered = series_sum (map TotalSales df_filtered)"

definition total_units_3 :: "dataframe \<Rightarrow> int" where
  "total_units_3 df_filtered = series_sum (map UnitsSold df_filtered)"

definition avg_price_3 :: "dataframe \<Rightarrow> real option" where
  "avg_price_3 df_filtered = series_mean (map UnitPrice df_filtered)"

text \<open>The text of the third metric, \<^verbatim>\<open>f"${avg_price:,.2f}"\<close> (3.py 42).\<close>

definition kpi3_3 :: "dataframe \<Rightarrow> string" where
  "kpi3_3 df_filtered = ''$'' @ format_comma_2f (avg_price_3 df_filtered)"

subsection \<open>Filtering and KPIs of 31.py (lines 28--38)\<close>

definition df_filtered_31 :: "filter_spec \<Rightarrow> dataframe \<Rightarrow> dataframe" where
  "df_filtered_31 s df =
     bool_index df
       (mask_and
         (mask_and
           (mask_and (isin (map Region df) (regions s))
                     (isin (map Country df) (countries s)))
           (isin (map ProductCategory df) (categories s)))
         (between (map Date df) (start_date s) (end_date s)))"

definition total_sales_31 :: "dataframe \<Rightarrow> real" where
  "total_sales_31 df_filtered = series_sum (map TotalSales df_filtered)"

definition total_units_31 :: "dataframe \<Rightarrow> int" where
  "total_units_31 df_filtered = series_sum (map UnitsSold df_filtered)"

definition avg_price_31 :: "dataframe \<Rightarrow> real option" where
  "avg_price_31 df_filtered = series_mean (map UnitPrice df_filtered)"

text \<open>The text of the third metric (31.py 43).\<close>

definition kpi3_31 :: "dataframe \<Rightarrow> string" where
  "kpi3_31 df_filtered = ''$'' @ format_comma_2f (avg_price_31 df_filtered)"

subsection \<open>Charts\<close>

text \<open>The column a grouping choice names.\<close>

fun column :: "dimension \<Rightarrow> sale \<Rightarrow> string" where
  "column ByRegion = Region"
| "column ByCountry = Country"
| "column ByProductCategory = ProductCategory"
| "column ByProduct = Product"

text \<open>
  \<^verbatim>\<open>df_filtered.groupby(level, as_index=False)["TotalSales"].sum()\<close>: the table behind the
  drill-down bar chart (3.py 51, 31.py 56) and, with \<^verbatim>\<open>agg_dim\<close> for \<^verbatim>\<open>level\<close>, behind the
  pie chart (3.py 85, 31.py 92).
\<close>

definition sales_by :: "dimension \<Rightarrow> dataframe \<Rightarrow> (string \<times> real) list" where
  "sales_by level df_filtered = groupby_sum (column level) TotalSales df_filtered"

text \<open>
  \<^verbatim>\<open>df_time\<close> (3.py 65--69, 31.py 71--75): a copy of the filtered frame with the new
  column \<^verbatim>\<open>Period\<close>, modelled as rows paired with their period.
\<close>

definition df_time :: "time_agg \<Rightarrow> dataframe \<Rightarrow> (date \<times> sale) list" where
  "df_time agg df_filtered =
     (if agg = Month then map (\<lambda>r. (to_period_M_to_timestamp (Date r), r)) df_filtered
      else map (\<lambda>r. (Date r, r)) df_filtered)"

text \<open>\<^verbatim>\<open>df_time.groupby("Period", as_index=False)["TotalSales"].sum()\<close> (3.py 72, 31.py 78).\<close>

definition sales_over_time :: "time_agg \<Rightarrow> dataframe \<Rightarrow> (date \<times> real) list" where
  "sales_over_time agg df_filtered =
     groupby_sum fst (\<lambda>row. TotalSales (snd row)) (df_time agg df_filtered)"

subsection \<open>The insights tab of 31.py\<close>

text \<open>\<^verbatim>\<open>top_products\<close> (31.py 105--106); \<open>top_n\<close> is the value of the slider.\<close>

definition top_products ::
  "((string \<times> real) list \<Rightarrow> (string \<times> real) list) \<Rightarrow> nat \<Rightarrow> dataframe \<Rightarrow> (string \<times> real) list" where
  "top_products sort_values top_n df_filtered =
     head top_n (sort_values (groupby_sum Product TotalSales df_filtered))"

text \<open>\<^verbatim>\<open>corr\<close> (31.py 111).\<close>

definition corr :: "dataframe \<Rightarrow> real option list list" where
  "corr df_filtered =
     corr_columns
       [map (\<lambda>r. real_of_int (UnitsSold r)) df_filtered,
        map UnitPrice df_filtered,
        map TotalSales df_filtered]"

subsection \<open>One run of 31.py\<close>

text \<open>The values of the widgets on the tabs.\<close>

record controls =
  level :: dimension
  time_choice :: time_agg
  agg_dim :: dimension
  top_n :: nat

text \<open>What one run of the script puts on the page, as far as it is modelled here.\<close>

record page =
  shown_table :: dataframe
  shown_total_sales :: real
  shown_total_units :: int
  shown_kpi3 :: string
  shown_fig :: "(string \<times> real) list"
  shown_fig2 :: "(date \<times> real) list"
  shown_fig3 :: "(string \<times> real) list"
  shown_top_products :: "(string \<times> real) list"
  shown_corr :: "real option list list"

text \<open>
  The script from the sidebar to the insights tab, without the calls that draw the
  charts. Of the statements modelled, only the reads of \<^verbatim>\<open>date_range[0]\<close> and
  \<^verbatim>\<open>date_range[1]\<close> can raise (the date input returns fewer than two dates while a
  range is being picked); the data-frame operations after them return on every input.
\<close>

definition run_31 ::
  "((string \<times> real) list \<Rightarrow> (string \<times> real) list) \<Rightarrow>
   string list \<Rightarrow> string list \<Rightarrow> string list \<Rightarrow> date list \<Rightarrow> controls \<Rightarrow> dataframe \<Rightarrow>
   error + page" where
  "run_31 sort_values rs cs ks date_range ctl df =
     (case read_filters rs cs ks date_range of
        Inl e \<Rightarrow> Inl e
      | Inr s \<Rightarrow>
          (let df_filtered = df_filtered_31 s df in
           Inr \<lparr>shown_table = df_filtered,
                shown_total_sales = total_sales_31 df_filtered,
                shown_total_units = total_units_31 df_filtered,
                shown_kpi3 = kpi3_31 df_filtered,
                shown_fig = sales_by (level ctl) df_filtered,
                shown_fig2 = sales_over_time (time_choice ctl) df_filtered,
                shown_fig3 = sales_by (agg_dim ctl) df_filtered,
                shown_top_products = top_products sort_values (top_n ctl) df_filtered,
                shown_corr = corr df_filtered\<rparr>))"


section \<open>The specification's vocabulary\<close>

text \<open>The four-part predicate of the Filter Engine, in the specification's words.\<close>

definition satisfies :: "filter_spec \<Rightarrow> sale \<Rightarrow> bool" where
  "satisfies s r =
     (Region r \<in> set (regions s) \<and> Country r \<in> set (countries s) \<and>
      ProductCategory r \<in> set (categories s) \<and>
      start_date s \<le> Date r \<and> Date r \<le> end_date s)"

text \<open>The period start of a date: the date itself for \<open>Day\<close>, the first day of its month
  for \<open>Month\<close>.\<close>

fun period_start :: "time_agg \<Rightarrow> date \<Rightarrow> date" where
  "period_start Day d = d"
| "period_start Month (y, m, d) = (y, m, 1)"

text \<open>The ranking the specification asks of the Ranker: measure descending, and among equal
  measures the keys ascending.\<close>

definition ranked :: "(string \<times> real) list \<Rightarrow> bool" where
  "ranked xs = sorted_wrt (\<lambda>a b. snd b < snd a \<or> (snd b = snd a \<and> fst a < fst b)) xs"

text \<open>The matrix whose nine entries are all \<^verbatim>\<open>NaN\<close>.\<close>

definition nan_row :: "real option list" where
  "nan_row = [None, None, None]"

definition nan_matrix :: "real option list list" where
  "nan_matrix = [nan_row, nan_row, nan_row]"


section \<open>Sample data\<close>

text \<open>The three records of the specification's concrete scenario.\<close>

definition car_jan :: sale where
  "car_jan = \<lparr>Date = (2024, 1, 10), Region = ''US'', Country = ''USA'',
     ProductCategory = ''Toys'', Product = ''Car'',
     UnitsSold = 2, UnitPrice = 10, TotalSales = 20\<rparr>"

definition car_feb :: sale where
  "car_feb = \<lparr>Date = (2024, 2, 15), Region = ''US'', Country = ''USA'',
     ProductCategory = ''Toys'', Product = ''Car'',
     UnitsSold = 1, UnitPrice = 10, TotalSales = 10\<rparr>"

definition atlas_feb :: sale where
  "atlas_feb = \<lparr>Date = (2024, 2, 20), Region = ''EU'', Country = ''DE'',
     ProductCategory = ''Books'', Product = ''Atlas'',
     UnitsSold = 3, UnitPrice = 5, TotalSales = 15\<rparr>"

definition scenario :: dataframe where
  "scenario = [car_jan, car_feb, atlas_feb]"

definition year_2024 :: filter_spec where
  "year_2024 = \<lparr>regions = [''US''], countries = [''USA'', ''DE''],
     categories = [''Toys'', ''Books''], start_date = (2024, 1, 1), end_date = (2024, 12, 31)\<rparr>"



section \<open>Facts about the primitives\<close>

subsection \<open>Boolean columns and row selection\<close>

lemma isin_map: "isin (map f df) vals = map (\<lambda>r. f r \<in> set vals) df"
  by (simp add: isin_def)

lemma between_map: "between (map f df) a b = map (\<lambda>r. a \<le> f r \<and> f r \<le> b) df"
  by (simp add: between_def)

lemma mask_and_map: "mask_and (map P df) (map Q df) = map (\<lambda>r. P r \<and> Q r) df"
  by (induction df) (simp_all add: mask_and_def)

lemma bool_index_map: "bool_index df (map P df) = filter P df"
  by (induction df) (simp_all add: bool_index_def)

subsection \<open>Sums\<close>

lemma series_sum_sum_list: "series_sum xs = sum_list xs"
proof -
  have "foldl (+) a xs = a + sum_list xs" for a :: 'a
    by (induction xs arbitrary: a) (simp_all add: add.assoc)
  from this [of 0] show ?thesis by (simp add: series_sum_def)
qed

subsection \<open>Grouping\<close>


lemma groupby_sum_snoc:
  "groupby_sum key val (df @ [r]) = group_add (key r) (val r) (groupby_sum key val df)"
  by (simp add: groupby_sum_def)

lemma groupby_sum_Nil: "groupby_sum key val [] = []"
  by (simp add: groupby_sum_def)


text \<open>
  On groups whose keys are strictly ascending, \<open>group_add\<close> keeps the keys strictly
  ascending: a new key is inserted at its place, a known key keeps its place and its sum
  grows.
\<close>

lemma group_add_keys:
  assumes "sorted_wrt (<) ks"
  shows "group_add k v (map (\<lambda>j. (j, f j)) ks) =
         map (\<lambda>j. (j, if j = k then (if k \<in> set ks then f k + v else v) else f j))
             (if k \<in> set ks then ks else insort k ks)"
  using assms
  by (induction ks) (auto)

lemma sorted_list_of_set_ins:
  assumes "finite S"
  shows "sorted_list_of_set (insert k S) =
         (if k \<in> S then sorted_list_of_set S else insort k (sorted_list_of_set S))"
proof (cases "k \<in> S")
  case True
  then have "insert k S = S" by auto
  with True show ?thesis by simp
next
  case False
  with assms show ?thesis by simp
qed

text \<open>
  Hence the closed form of a grouping: one row for each key that occurs, the keys in
  ascending order, each with the sum over the rows of that key.
\<close>

lemma groupby_sum_closed:
  "groupby_sum key val df =
     map (\<lambda>k. (k, \<Sum>r\<leftarrow>filter (\<lambda>r. key r = k) df. val r))
         (sorted_list_of_set (key ` set df))"
proof (induction df rule: rev_induct)
  case Nil
  show ?case by (simp add: groupby_sum_Nil)
next
  case (snoc x xs)
  let ?S = "key ` set xs"
  let ?ks = "sorted_list_of_set ?S"
  let ?f = "\<lambda>k. \<Sum>r\<leftarrow>filter (\<lambda>r. key r = k) xs. val r"
  have fin: "finite ?S" by simp
  have srt: "sorted_wrt (<) ?ks" by simp
  have mem: "key x \<in> set ?ks \<longleftrightarrow> key x \<in> ?S" by simp
  have zero: "?f (key x) = 0" if "key x \<notin> ?S"
  proof -
    have "filter (\<lambda>r. key r = key x) xs = []"
      using that by (auto simp: filter_empty_conv image_iff)
    then show ?thesis by simp
  qed
  have "groupby_sum key val (xs @ [x]) = group_add (key x) (val x) (map (\<lambda>j. (j, ?f j)) ?ks)"
    by (simp add: groupby_sum_snoc snoc.IH)
  also have "\<dots> = map (\<lambda>j. (j, if j = key x then (if key x \<in> set ?ks then ?f (key x) + val x else val x) else ?f j))
             (if key x \<in> set ?ks then ?ks else insort (key x) ?ks)"
    by (rule group_add_keys [OF srt])
  also have "(if key x \<in> set ?ks then ?ks else insort (key x) ?ks) = sorted_list_of_set (key ` set (xs @ [x]))"
    using sorted_list_of_set_ins [OF fin, of "key x"] by simp
  also have "map (\<lambda>j. (j, if j = key x then (if key x \<in> set ?ks then ?f (key x) + val x else val x) else ?f j))
             (sorted_list_of_set (key ` set (xs @ [x])))
           = map (\<lambda>k. (k, \<Sum>r\<leftarrow>filter (\<lambda>r. key r = k) (xs @ [x]). val r))
             (sorted_list_of_set (key ` set (xs @ [x])))"
    using zero by (intro map_cong) (auto simp: mem)
  finally show ?case .
qed

lemma keys_groupby_sum:
  "map fst (groupby_sum key val df) = sorted_list_of_set (key ` set df)"
  by (simp add: groupby_sum_closed comp_def)


lemma groupby_sum_map:
  "groupby_sum key val (map g df) = groupby_sum (\<lambda>r. key (g r)) (\<lambda>r. val (g r)) df"
  by (simp add: groupby_sum_def foldl_map)

subsection \<open>Sorting routines\<close>





subsection \<open>Correlation of fewer than two rows\<close>

lemma pearson_Nil: "pearson [] ys = None"
  by (simp add: pearson_def)

lemma pearson_single: "pearson [x] ys = None"
  by (simp add: pearson_def)

lemma corr_shape: "map length (corr df) = [3, 3, 3]"
  by (simp add: corr_def corr_columns_def)

lemma corr_few: 
  assumes "length df < 2"
  shows "corr df = nan_matrix"
proof (cases df)
  case Nil
  then show ?thesis
    by (simp add: corr_def corr_columns_def pearson_Nil nan_row_def nan_matrix_def)
next
  case (Cons r rs)
  with assms have "rs = []" by simp
  with Cons show ?thesis
    by (simp add: corr_def corr_columns_def pearson_single nan_row_def nan_matrix_def)
qed


section \<open>Facts about the scripts\<close>

text \<open>The statement that builds \<^verbatim>\<open>df_filtered\<close> selects the rows that satisfy the
  four-part predicate.\<close>

lemma filter_steps:
  "bool_index df
     (mask_and
       (mask_and
         (mask_and (isin (map Region df) (regions s)) (isin (map Country df) (countries s)))
         (isin (map ProductCategory df) (categories s)))
       (between (map Date df) (start_date s) (end_date s)))
   = filter (satisfies s) df"
proof -
  have "mask_and
       (mask_and
         (mask_and (isin (map Region df) (regions s)) (isin (map Country df) (countries s)))
         (isin (map ProductCategory df) (categories s)))
       (between (map Date df) (start_date s) (end_date s)) = map (satisfies s) df"
    by (simp add: isin_map between_map mask_and_map satisfies_def conj_assoc)
  then show ?thesis by (simp add: bool_index_map)
qed

lemma df_filtered_3_filter: "df_filtered_3 s df = filter (satisfies s) df"
  by (simp add: df_filtered_3_def filter_steps)

lemma df_filtered_31_filter: "df_filtered_31 s df = filter (satisfies s) df"
  by (simp add: df_filtered_31_def filter_steps)


lemma read_filters_pair:
  "read_filters rs cs ks [d0, d1] =
     Inr \<lparr>regions = rs, countries = cs, categories = ks, start_date = d0, end_date = d1\<rparr>"
  by (simp add: read_filters_def py_index_def to_datetime_def)

lemma df_time_period_start:
  "df_time agg df = map (\<lambda>r. (period_start agg (Date r), r)) df"
  by (cases agg) (auto simp: df_time_def to_period_M_to_timestamp_def split: prod.splits)

lemma sales_over_time_groupby:
  "sales_over_time agg df = groupby_sum (\<lambda>r. period_start agg (Date r)) TotalSales df"
  by (simp add: sales_over_time_def df_time_period_start groupby_sum_map)

lemma sample_defs:
  "scenario = [car_jan, car_feb, atlas_feb]"
  "car_jan = \<lparr>Date = (2024, 1, 10), Region = ''US'', Country = ''USA'',
     ProductCategory = ''Toys'', Product = ''Car'',
     UnitsSold = 2, UnitPrice = 10, TotalSales = 20\<rparr>"
  "car_feb = \<lparr>Date = (2024, 2, 15), Region = ''US'', Country = ''USA'',
     ProductCategory = ''Toys'', Product = ''Car'',
     UnitsSold = 1, UnitPrice = 10, TotalSales = 10\<rparr>"
  "atlas_feb = \<lparr>Date = (2024, 2, 20), Region = ''EU'', Country = ''DE'',
     ProductCategory = ''Books'', Product = ''Atlas'',
     UnitsSold = 3, UnitPrice = 5, TotalSales = 15\<rparr>"
  by (simp_all add: scenario_def car_jan_def car_feb_def atlas_feb_def)


section \<open>The claims\<close>

subsection \<open>Filtering\<close>

text \<open>
  Claim C1. For every data frame and every filter specification, the filtered frame of
  either script consists of exactly the rows that satisfy the four-part predicate (region,
  country and category among the selected values, date between the two bounds, both
  included), in the order of the input, none of them repeated.
\<close>

theorem df_filtered_is_stable_filter:
  "df_filtered_3 s df = filter (satisfies s) df \<and>
   df_filtered_31 s df = filter (satisfies s) df \<and>
   subseq (df_filtered_3 s df) df \<and> subseq (df_filtered_31 s df) df"
  by (simp add: df_filtered_3_filter df_filtered_31_filter)

text \<open>
  Claim C6. Filtering is idempotent: filtering the filtered frame again with the same
  specification returns it unchanged.
\<close>

theorem df_filtered_idempotent:
  "df_filtered_3 s (df_filtered_3 s df) = df_filtered_3 s df \<and>
   df_filtered_31 s (df_filtered_31 s df) = df_filtered_31 s df"
  by (simp add: df_filtered_3_filter df_filtered_31_filter)

text \<open>
  Claim C9. On the same data frame and the same selections the two scripts compute the
  same filtered frame and the same three KPI values.
\<close>

theorem scripts_agree:
  "df_filtered_3 s df = df_filtered_31 s df \<and>
   total_sales_3 (df_filtered_3 s df) = total_sales_31 (df_filtered_31 s df) \<and>
   total_units_3 (df_filtered_3 s df) = total_units_31 (df_filtered_31 s df) \<and>
   avg_price_3 (df_filtered_3 s df) = avg_price_31 (df_filtered_31 s df)"
  by (simp add: df_filtered_3_def df_filtered_31_def total_sales_3_def total_sales_31_def
      total_units_3_def total_units_31_def avg_price_3_def avg_price_31_def)

subsection \<open>Aggregation\<close>


text \<open>
  Claim C3. The time series gives every row the period start of its date, which is the
  first day of the date's month for \<open>Month\<close> and the date itself for \<open>Day\<close>; it then has
  exactly one row for each period start that occurs, carrying the sum of \<^verbatim>\<open>TotalSales\<close>
  over the rows of that period, and its rows are in strictly ascending chronological order.
\<close>

theorem sales_over_time_chronological:
  "period_start Month (y, m, d) = (y, m, 1) \<and> period_start Day (y, m, d) = (y, m, d) \<and>
   map fst (df_time agg df) = map (\<lambda>r. period_start agg (Date r)) df \<and>
   sales_over_time agg df =
     map (\<lambda>p. (p, \<Sum>r\<leftarrow>filter (\<lambda>r. period_start agg (Date r) = p) df. TotalSales r))
         (sorted_list_of_set ((\<lambda>r. period_start agg (Date r)) ` set df)) \<and>
   sorted_wrt (<) (map fst (sales_over_time agg df))"
  by (simp add: sales_over_time_groupby keys_groupby_sum groupby_sum_closed [symmetric]
      df_time_period_start comp_def)

text \<open>
  Claim C10. For every filtered frame and each of the four grouping columns, the rows of
  the aggregation are in ascending order of the key: the keys are the values of the column
  that occur, each once, sorted.
\<close>

theorem sales_by_keys_ascending:
  "sorted_wrt (<) (map fst (sales_by lvl df)) \<and>
   map fst (sales_by lvl df) = sorted_list_of_set (column lvl ` set df)"
  by (simp add: sales_by_def keys_groupby_sum)

subsection \<open>Ranking\<close>




text \<open>Inserting a row whose key is larger than every key present keeps rows of equal
  value in descending order of the key.\<close>

lemma insort_key_larger_key:
  fixes x :: "'k::linorder \<times> real"
  assumes "sorted_wrt (\<lambda>a b. snd a < snd b \<or> (snd a = snd b \<and> fst b < fst a)) zs"
    and "\<forall>z\<in>set zs. fst z < fst x"
  shows "sorted_wrt (\<lambda>a b. snd a < snd b \<or> (snd a = snd b \<and> fst b < fst a))
           (insort_key snd x zs)"
  using assms
proof (induction zs)
  case Nil
  then show ?case by simp
next
  case (Cons z zs)
  show ?case
  proof (cases "snd x \<le> snd z")
    case True
    have "snd x < snd b \<or> (snd x = snd b \<and> fst b < fst x)" if "b \<in> set (z # zs)" for b
    proof (cases "b = z")
      case True
      with \<open>snd x \<le> snd z\<close> Cons.prems(2) show ?thesis by auto
    next
      case False
      with that have "b \<in> set zs" by simp
      with Cons.prems have "snd z < snd b \<or> (snd z = snd b \<and> fst b < fst z)" "fst b < fst x"
        by auto
      with True show ?thesis by auto
    qed
    with True Cons.prems(1) show ?thesis by simp
  next
    case False
    have "sorted_wrt (\<lambda>a b. snd a < snd b \<or> (snd a = snd b \<and> fst b < fst a)) (insort_key snd x zs)"
      using Cons.IH Cons.prems by simp
    moreover have "snd z < snd b \<or> (snd z = snd b \<and> fst b < fst z)"
      if "b \<in> set (insort_key snd x zs)" for b
      using that False Cons.prems(1) by (auto simp: set_insort_key)
    ultimately show ?thesis using False by simp
  qed
qed

lemma sort_key_descending_keys:
  fixes ys :: "('k::linorder \<times> real) list"
  assumes "sorted_wrt (\<lambda>a b. fst b < fst a) ys"
  shows "sorted_wrt (\<lambda>a b. snd a < snd b \<or> (snd a = snd b \<and> fst b < fst a)) (sort_key snd ys)"
  using assms
proof (induction ys)
  case Nil
  then show ?case by simp
next
  case (Cons y ys)
  then have "\<forall>z\<in>set (sort_key snd ys). fst z < fst y" by simp
  with Cons show ?case by (simp add: insort_key_larger_key)
qed

text \<open>
  With a stable sort (\<^verbatim>\<open>kind="stable"\<close>) rows of equal sum stay in the order of the
  grouping, which is ascending by product: then the ranking is the one the specification
  describes.
\<close>

lemma stable_sort_breaks_ties_by_key:
  "ranked (top_products stable_sort_values n df)"
proof -
  let ?g = "groupby_sum Product TotalSales df"
  have "sorted_wrt (<) (map fst ?g)" by (simp add: keys_groupby_sum)
  then have "sorted_wrt (\<lambda>a b. fst a < fst b) ?g" by (simp add: sorted_wrt_map)
  then have "sorted_wrt (\<lambda>a b. fst b < fst a) (rev ?g)" by (simp add: sorted_wrt_rev)
  then have "sorted_wrt (\<lambda>a b. snd a < snd b \<or> (snd a = snd b \<and> fst b < fst a))
               (sort_key snd (rev ?g))"
    by (rule sort_key_descending_keys)
  then have "sorted_wrt (\<lambda>a b. snd b < snd a \<or> (snd b = snd a \<and> fst a < fst b))
               (rev (sort_key snd (rev ?g)))"
    by (simp add: sorted_wrt_rev)
  then show ?thesis
    by (simp add: ranked_def top_products_def head_def stable_sort_values_def sorted_wrt_take)
qed

subsection \<open>Selections that match nothing\<close>



subsection \<open>Correlation\<close>

text \<open>
  Claim C7, as amended. For every filtered frame \<^verbatim>\<open>corr\<close> returns a matrix of three rows
  of three entries; when fewer than two records remain, every entry of it is \<^verbatim>\<open>NaN\<close>.
  No error is raised.
\<close>

theorem corr_of_few_records_is_nan:
  "map length (corr df) = [3, 3, 3] \<and> (length df < 2 \<longrightarrow> corr df = nan_matrix)"
  by (simp add: corr_shape corr_few)

theorem corr_of_few_records_is_nan_witness:
  "length [car_jan] < 2 \<and> map length (corr [car_jan]) = [3, 3, 3] \<and> corr [car_jan] = nan_matrix"
  using corr_of_few_records_is_nan [of "[car_jan]"] by (simp add: nan_row_def nan_matrix_def)

text \<open>
  The claim as written has the computation fail when fewer than two records remain. It
  returns: on no record and on one record the result is the matrix of \<^verbatim>\<open>NaN\<close>, and a run
  of 31.py whose filter leaves one record ends with a page that shows that matrix.
\<close>

theorem corr_returns_counterexample:
  "corr [] = nan_matrix \<and> corr [car_jan] = nan_matrix \<and>
   map_sum id (\<lambda>p. (shown_table p, shown_corr p))
     (run_31 stable_sort_values [''US''] [''USA''] [''Toys''] [(2024, 1, 1), (2024, 1, 31)]
        \<lparr>level = ByRegion, time_choice = Month, agg_dim = ByProduct, top_n = 5\<rparr> scenario)
   = Inr ([car_jan], nan_matrix)"
proof -
  have sel: "df_filtered_31 \<lparr>regions = [''US''], countries = [''USA''], categories = [''Toys''],
               start_date = (2024, 1, 1), end_date = (2024, 1, 31)\<rparr> scenario = [car_jan]"
    by (simp add: df_filtered_31_filter satisfies_def sample_defs)
  have one: "corr [car_jan] = nan_matrix"
    by (simp add: corr_def corr_columns_def pearson_def nan_row_def nan_matrix_def)
  have none: "corr [] = nan_matrix"
    by (simp add: corr_def corr_columns_def pearson_def nan_row_def nan_matrix_def)
  have run: "run_31 stable_sort_values [''US''] [''USA''] [''Toys''] [(2024, 1, 1), (2024, 1, 31)]
        \<lparr>level = ByRegion, time_choice = Month, agg_dim = ByProduct, top_n = 5\<rparr> scenario
      = Inr \<lparr>shown_table = [car_jan],
                shown_total_sales = total_sales_31 [car_jan],
                shown_total_units = total_units_31 [car_jan],
                shown_kpi3 = kpi3_31 [car_jan],
                shown_fig = sales_by ByRegion [car_jan],
                shown_fig2 = sales_over_time Month [car_jan],
                shown_fig3 = sales_by ByProduct [car_jan],
                shown_top_products = top_products stable_sort_values 5 [car_jan],
                shown_corr = nan_matrix\<rparr>"
    by (simp only: run_31_def read_filters_pair sel one Let_def sum.case controls.simps)
  show ?thesis
    by (simp only: run one none) simp
qed

subsection \<open>The average price of no record\<close>

text \<open>
  Claim C8, as amended. The average unit price is the sum of the prices over their number
  when the filtered frame has rows, and \<^verbatim>\<open>NaN\<close> when it has none; no division by zero is
  raised. On the empty frame the third metric shows the text \<^verbatim>\<open>$nan\<close>.
\<close>

theorem avg_price_of_empty_is_nan:
  "avg_price_3 df =
     (if df = [] then None else Some (sum_list (map UnitPrice df) / real (length df))) \<and>
   avg_price_31 df =
     (if df = [] then None else Some (sum_list (map UnitPrice df) / real (length df))) \<and>
   kpi3_3 [] = ''$nan'' \<and> kpi3_31 [] = ''$nan''"
  by (simp add: avg_price_3_def avg_price_31_def kpi3_3_def kpi3_31_def series_mean_def
      series_sum_sum_list format_comma_2f_def)

text \<open>
  The claim as written has the undefined average displayed as zero or blank. Either
  script displays \<^verbatim>\<open>$nan\<close>, which is neither.
\<close>

theorem avg_price_display_counterexample:
  "avg_price_31 [] = None \<and> kpi3_31 [] = ''$nan'' \<and> kpi3_3 [] = ''$nan'' \<and>
   kpi3_31 [] \<noteq> ''$0.00'' \<and> kpi3_31 [] \<noteq> ''$0'' \<and> kpi3_31 [] \<noteq> ''$'' \<and> kpi3_31 [] \<noteq> []"
  by (simp add: avg_price_3_def avg_price_31_def kpi3_3_def kpi3_31_def series_mean_def
      format_comma_2f_def)


section \<open>The specification's concrete scenario\<close>

text \<open>
  Filtering the three sample records to region \<^verbatim>\<open>US\<close> and the year 2024 keeps the first
  two; by month they give January and February in that order; by product category the whole
  sample gives \<^verbatim>\<open>Books\<close> then \<^verbatim>\<open>Toys\<close>; and \<^verbatim>\<open>Car\<close> is the top product.
\<close>

lemma scenario_filtered: "df_filtered_31 year_2024 scenario = [car_jan, car_feb]"
  by (simp add: df_filtered_31_filter satisfies_def year_2024_def sample_defs)

lemma scenario_by_month:
  "sales_over_time Month [car_jan, car_feb] = [((2024, 1, 1), 20), ((2024, 2, 1), 10)]"
  by (simp add: sales_over_time_def df_time_def groupby_sum_def to_period_M_to_timestamp_def
      sample_defs)

lemma scenario_by_category:
  "sales_by ByProductCategory scenario = [(''Books'', 15), (''Toys'', 30)]"
  by (simp add: sales_by_def groupby_sum_def sample_defs)

lemma scenario_top_product:
  "top_products stable_sort_values 1 scenario = [(''Car'', 30)]"
  by (simp add: top_products_def stable_sort_values_def head_def groupby_sum_def sample_defs)

end
